theory Spec2Isabelle
  imports Main
begin

section \<open>The stage controller: hardware constants and machine state\<close>

text \<open>
  The program is one Python script (\<^verbatim>\<open>4steppergui_re-comment.py\<close>) that drives four
  stepper motors through GPIO pins, keeps the position of every axis in a global
  variable and walks a grid of coordinates, taking a picture at each.

  The globals become the fields of one record that every function takes and returns.
  A step pulse (pin HIGH, sleep, pin LOW) is appended to the field \<open>steps\<close>, a line
  written by \<^verbatim>\<open>print\<close> to \<open>stdout\<close>, and what the scan does to the world around it
  (the pause after a move, a call of the camera program, the alert while it waits for
  the camera, the pickle dump, the reboot, the renaming of the pickle file) to
  \<open>events\<close>. Python integers are \<open>int\<close>. The delay between two pulses is one of six
  float presets; the model keeps its name and not its duration. The Tk labels that
  display a position are not modelled.
\<close>

definition XMax :: int where "XMax = 1800"
definition YMax :: int where "YMax = 2000"
definition ZMax :: int where "ZMax = 3000"
definition StepsPerRotation :: int where "StepsPerRotation = 160"

definition XFORWARD :: int where "XFORWARD = 1"
definition XBACKWARD :: int where "XBACKWARD = 0"
definition YFORWARD :: int where "YFORWARD = 1"
definition YBACKWARD :: int where "YBACKWARD = 0"
definition ZFORWARD :: int where "ZFORWARD = 1"
definition ZBACKWARD :: int where "ZBACKWARD = 0"
definition RFORWARD :: int where "RFORWARD = 1"
definition RBACKWARD :: int where "RBACKWARD = 0"


datatype speed = FASTERER | FASTER | FAST | SLOW | SLOWER | SLOWERER

datatype axis = AxisX | AxisY | AxisZ | AxisR

text \<open>One pulse on the step pin of an axis, with the value of its direction pin.\<close>

datatype pulse = Pulse axis int speed

record scan_locations =
  XCoord :: "int list"
  YCoord :: "int list"
  ZCoord :: "int list"
  RCoord :: "int list"

text \<open>
  The dictionary \<^verbatim>\<open>conditions\<close> that \<^verbatim>\<open>GridScan\<close> pickles next to the remaining
  coordinates. Time stamps are the floats of \<^verbatim>\<open>time.time()\<close>; they are only stored, so
  their type is a parameter.
\<close>

record 't conditions =
  save_location :: string
  R_Location :: int
  filetype :: string
  resolution :: string
  num_failures :: int
  original_pics :: nat
  original_time :: 't
  original_locations :: scan_locations
  failed_pics :: "string list"
  failure_times :: "'t list"

datatype 't event =
    Settle
  | Fswebcam string string
  | AlertWait int
  | PickleDump scan_locations "'t conditions"
  | Restart
  | RenameCheckpoint

record 't machine =
  GlobalX :: int
  GlobalY :: int
  GlobalZ :: int
  GlobalR :: int
  steps :: "pulse list"
  stdout :: "string list"
  reads :: nat
  events :: "'t event list"

section \<open>Python and numpy built-ins\<close>

datatype error = IndexError | ValueError | ZeroDivisionError

text \<open>\<^verbatim>\<open>str\<close> of an integer, and \<^verbatim>\<open>str.zfill\<close>, which pads after a leading sign.\<close>

definition digit_char :: "nat \<Rightarrow> char" where
  "digit_char d = ''0123456789'' ! d"

fun str_nat :: "nat \<Rightarrow> string" where
  "str_nat n = (if n < 10 then [digit_char n] else str_nat (n div 10) @ [digit_char (n mod 10)])"

definition str_int :: "int \<Rightarrow> string" where
  "str_int i = (if i < 0 then CHR ''-'' # str_nat (nat (- i)) else str_nat (nat i))"

definition zfill :: "nat \<Rightarrow> string \<Rightarrow> string" where
  "zfill width s =
     (case s of
        [] \<Rightarrow> replicate width (CHR ''0'')
      | c # rest \<Rightarrow>
          if c = CHR ''+'' \<or> c = CHR ''-''
          then c # replicate (width - length s) (CHR ''0'') @ rest
          else replicate (width - length s) (CHR ''0'') @ s)"

text \<open>Python indexing with a non-negative index: out of range raises \<^verbatim>\<open>IndexError\<close>.\<close>

definition index :: "'a list \<Rightarrow> nat \<Rightarrow> error + 'a" where
  "index xs i = (if i < length xs then Inr (xs ! i) else Inl IndexError)"

text \<open>
  \<^verbatim>\<open>numpy.arange(start, stop, step)\<close> on integers: the values \<open>start + k * step\<close> for
  \<open>k\<close> below the ceiling of \<open>(stop - start) / step\<close>, none when that is negative; a zero
  step raises. \<^verbatim>\<open>numpy.concatenate\<close> raises on an empty sequence of arrays. The elements
  are 64-bit in numpy; every element the program builds lies between the bounds it was
  given, so they are modelled as \<open>int\<close>.
\<close>

definition arange :: "int \<Rightarrow> int \<Rightarrow> int \<Rightarrow> error + int list" where
  "arange start stop step =
     (if step = 0 then Inl ZeroDivisionError
      else Inr (map (\<lambda>k. start + int k * step) [0..<nat (- ((start - stop) div step))]))"

definition concatenate :: "'a list list \<Rightarrow> error + 'a list" where
  "concatenate xss = (if xss = [] then Inl ValueError else Inr (concat xss))"

definition ones_like :: "int list \<Rightarrow> int list" where
  "ones_like xs = map (\<lambda>_. 1) xs"

section \<open>Axis driver\<close>

text \<open>
  \<^verbatim>\<open>for i in range(numsteps)\<close> runs \<open>nat numsteps\<close> times (never for a negative count);
  the position is then changed by \<open>numsteps\<close> itself.
\<close>

definition MoveX :: "int \<Rightarrow> int \<Rightarrow> speed \<Rightarrow> 't machine \<Rightarrow> 't machine" where
  "MoveX direction numsteps delay s =
     (let s1 = s\<lparr>steps := steps s @ replicate (nat numsteps) (Pulse AxisX direction delay)\<rparr>
      in if direction = XFORWARD then s1\<lparr>GlobalX := GlobalX s1 + numsteps\<rparr>
         else s1\<lparr>GlobalX := GlobalX s1 - numsteps\<rparr>)"

definition MoveY :: "int \<Rightarrow> int \<Rightarrow> speed \<Rightarrow> 't machine \<Rightarrow> 't machine" where
  "MoveY direction numsteps delay s =
     (let s1 = s\<lparr>steps := steps s @ replicate (nat numsteps) (Pulse AxisY direction delay)\<rparr>
      in if direction = YFORWARD then s1\<lparr>GlobalY := GlobalY s1 + numsteps\<rparr>
         else s1\<lparr>GlobalY := GlobalY s1 - numsteps\<rparr>)"

definition MoveZ :: "int \<Rightarrow> int \<Rightarrow> speed \<Rightarrow> 't machine \<Rightarrow> 't machine" where
  "MoveZ direction numsteps delay s =
     (let s1 = s\<lparr>steps := steps s @ replicate (nat numsteps) (Pulse AxisZ direction delay)\<rparr>
      in if direction = ZFORWARD then s1\<lparr>GlobalZ := GlobalZ s1 + numsteps\<rparr>
         else s1\<lparr>GlobalZ := GlobalZ s1 - numsteps\<rparr>)"

text \<open>\<^verbatim>\<open>MoveR\<close> declares \<^verbatim>\<open>global GlobalR\<close> and never assigns it.\<close>

definition MoveR :: "int \<Rightarrow> int \<Rightarrow> speed \<Rightarrow> 't machine \<Rightarrow> 't machine" where
  "MoveR direction numsteps delay s =
     s\<lparr>steps := steps s @ replicate (nat numsteps) (Pulse AxisR direction delay)\<rparr>"

text \<open>
  The destination is an \<open>int\<close> here, so the \<^verbatim>\<open>isinstance\<close> test of the source always
  passes. An out-of-range destination is reported with \<^verbatim>\<open>print\<close>; nothing is raised.
\<close>

definition XGoTo :: "int \<Rightarrow> int \<Rightarrow> 't machine \<Rightarrow> 't machine" where
  "XGoTo XDest XMin s =
     (if XDest \<le> XMax \<and> XDest \<ge> XMin then
        (let distance = XDest - GlobalX s
         in if distance > 0 then MoveX XFORWARD distance FASTER s
            else MoveX XBACKWARD (abs distance) FASTER s)
      else s\<lparr>stdout := stdout s @ [''Destination out of range'']\<rparr>)"

definition YGoTo :: "int \<Rightarrow> int \<Rightarrow> 't machine \<Rightarrow> 't machine" where
  "YGoTo YDest YMin s =
     (if YDest \<le> YMax \<and> YDest \<ge> YMin then
        (let distance = YDest - GlobalY s
         in if distance > 0 then MoveY YFORWARD distance FASTER s
            else MoveY YBACKWARD (abs distance) FASTER s)
      else s\<lparr>stdout := stdout s @ [''Destination out of range'']\<rparr>)"

definition ZGoTo :: "int \<Rightarrow> int \<Rightarrow> 't machine \<Rightarrow> 't machine" where
  "ZGoTo ZDest ZMin s =
     (if ZDest \<le> ZMax \<and> ZDest \<ge> ZMin then
        (let numsteps = ZDest - GlobalZ s
         in if numsteps > 0 then MoveZ ZFORWARD numsteps FASTERER s
            else MoveZ ZBACKWARD (abs numsteps) FASTERER s)
      else s\<lparr>stdout := stdout s @ [''Destination out of range'']\<rparr>)"

definition RGoTo_message :: "int \<Rightarrow> string" where
  "RGoTo_message RMin =
     ''I understand the desire to watch the motor spin around a lot... but between ''
       @ str_int RMin @ '' and '' @ str_int StepsPerRotation @ '' please''"

definition RGoTo :: "int \<Rightarrow> int \<Rightarrow> 't machine \<Rightarrow> 't machine" where
  "RGoTo RDest RMin s =
     (if RDest \<le> StepsPerRotation \<and> RDest \<ge> RMin then
        (let distance = RDest - GlobalR s
         in if distance > 0 then MoveR RFORWARD distance FAST s
            else MoveR RBACKWARD (abs distance) FAST s)
      else s\<lparr>stdout := stdout s @ [RGoTo_message RMin]\<rparr>)"

text \<open>The pulses a call issued: what it appended to the pulse log.\<close>

definition issued :: "'t machine \<Rightarrow> 't machine \<Rightarrow> pulse list" where
  "issued s s' = drop (length (steps s)) (steps s')"

definition boot :: "'t machine" where
  "boot = \<lparr>GlobalX = 0, GlobalY = 0, GlobalZ = 0, GlobalR = 0,
           steps = [], stdout = [], reads = 0, events = []\<rparr>"

section \<open>Homing controller\<close>

text \<open>
  The limit switches are read with \<^verbatim>\<open>GPIO.input\<close>. What a pin reads is not decided
  by the program: the model takes it as a function of the pin and of the number of reads
  made so far (\<open>True\<close> is HIGH, switch open; \<open>False\<close> is LOW, switch pressed), and
  counts the reads in the field \<open>reads\<close>. \<^verbatim>\<open>CheckPress\<close> returns \<^verbatim>\<open>True\<close> after two LOW
  reads and falls off its end otherwise (\<^verbatim>\<open>None\<close>, which the callers test as false).
\<close>

definition CheckPress :: "(nat \<Rightarrow> nat \<Rightarrow> bool) \<Rightarrow> nat \<Rightarrow> 't machine \<Rightarrow> bool \<times> 't machine" where
  "CheckPress gpio PIN s =
     (let input_state = gpio PIN (reads s); s1 = s\<lparr>reads := Suc (reads s)\<rparr>
      in if input_state = False then
           (let input_state' = gpio PIN (reads s1); s2 = s1\<lparr>reads := Suc (reads s1)\<rparr>
            in if input_state' = False then (True, s2) else (False, s2))
         else (False, s1))"












text \<open>
  The coarse steps of a homing run of X or Y are the single backward steps of the outer
  loop, the only pulses sent at the delay \<^verbatim>\<open>FASTER\<close>.
\<close>

definition coarse_steps :: "axis \<Rightarrow> pulse list \<Rightarrow> nat" where
  "coarse_steps a ps = length (filter (\<lambda>p. p = Pulse a 0 FASTER) ps)"

section \<open>Scan grid generator\<close>

text \<open>
  The loop over \<^verbatim>\<open>enumerate(ygrid)\<close> appends one row of X values and one row of Y values
  per element: \<^verbatim>\<open>xgrid[::(-1)**i]\<close> is \<open>xgrid\<close> itself for the slice step 1 and
  \<open>xgrid\<close> reversed for the slice step -1.
\<close>

definition raster_rows :: "int list \<Rightarrow> int list \<Rightarrow> int list list \<times> int list list" where
  "raster_rows xgrid ygrid =
     fold (\<lambda>(i, yi) (xscan, yscan).
             (xscan @ [if (- 1) ^ i = (1::int) then xgrid else rev xgrid],
              yscan @ [map (\<lambda>one. one * yi) (ones_like xgrid)]))
          (enumerate 0 ygrid) ([], [])"

text \<open>The two nested loops that repeat the X-Y pattern for each Z height.\<close>

definition add_z :: "int list \<Rightarrow> int list \<Rightarrow> int list \<Rightarrow> int list \<times> int list \<times> int list" where
  "add_z xscan yscan zgrid =
     fold (\<lambda>i. fold (\<lambda>j (NewXScan, NewYScan, NewZScan).
                       (NewXScan @ [xscan ! j], NewYScan @ [yscan ! j], NewZScan @ [zgrid ! i]))
                     [0..<length xscan])
          [0..<length zgrid] ([], [], [])"

text \<open>The two nested loops that repeat the X-Y-Z pattern for each rotation angle.\<close>

definition add_r :: "int list \<Rightarrow> int list \<Rightarrow> int list \<Rightarrow> int list
    \<Rightarrow> int list \<times> int list \<times> int list \<times> int list" where
  "add_r NewXScan NewYScan NewZScan rgrid =
     fold (\<lambda>i. fold (\<lambda>j (NewNewXScan, NewNewYScan, NewNewZScan, NewNewRScan).
                       (NewNewXScan @ [NewXScan ! j], NewNewYScan @ [NewYScan ! j],
                        NewNewZScan @ [NewZScan ! j], NewNewRScan @ [rgrid ! i]))
                     [0..<length NewXScan])
          [0..<length rgrid] ([], [], [], [])"

text \<open>
  The parameters \<^verbatim>\<open>XMax\<close>, \<^verbatim>\<open>YMax\<close>, \<^verbatim>\<open>ZMax\<close> of \<^verbatim>\<open>DefineScan\<close> hide the globals of
  the same names; here they carry a prime.
\<close>

definition DefineScan :: "int \<Rightarrow> int \<Rightarrow> int \<Rightarrow> int \<Rightarrow> int \<Rightarrow> int \<Rightarrow> int \<Rightarrow> int
    \<Rightarrow> int \<Rightarrow> int \<Rightarrow> int \<Rightarrow> int \<Rightarrow> error + scan_locations" where
  "DefineScan XMin XMax' YMin YMax' ZMin ZMax' RMin RMax' XSteps YSteps ZSteps RSteps =
     (case arange XMin (XMax' + 1) XSteps of Inl e \<Rightarrow> Inl e | Inr xgrid \<Rightarrow>
     (case arange YMin (YMax' + 1) YSteps of Inl e \<Rightarrow> Inl e | Inr ygrid \<Rightarrow>
     (case arange ZMin (ZMax' + 1) ZSteps of Inl e \<Rightarrow> Inl e | Inr zgrid \<Rightarrow>
     (case arange RMin (RMax' + 1) RSteps of Inl e \<Rightarrow> Inl e | Inr rgrid \<Rightarrow>
     (case raster_rows xgrid ygrid of (xrows, yrows) \<Rightarrow>
     (case concatenate xrows of Inl e \<Rightarrow> Inl e | Inr xscan \<Rightarrow>
     (case concatenate yrows of Inl e \<Rightarrow> Inl e | Inr yscan \<Rightarrow>
     (case add_z xscan yscan zgrid of (NewXScan, NewYScan, NewZScan) \<Rightarrow>
     (case add_r NewXScan NewYScan NewZScan rgrid of
        (NewNewXScan, NewNewYScan, NewNewZScan, NewNewRScan) \<Rightarrow>
          Inr \<lparr>XCoord = NewNewXScan, YCoord = NewNewYScan,
               ZCoord = NewNewZScan, RCoord = NewNewRScan\<rparr>)))))))))"




section \<open>Scan execution engine\<close>







definition name_of :: "int \<Rightarrow> int \<Rightarrow> int \<Rightarrow> int \<Rightarrow> nat \<Rightarrow> string \<Rightarrow> string" where
  "name_of x y z r NumberOfRotations ext =
     ''X'' @ zfill 4 (str_int x) @ ''Y'' @ zfill 4 (str_int y) @
     ''Z'' @ zfill 4 (str_int z) @ ''R'' @ zfill 3 (str_int r) @
     ''of'' @ zfill 3 (str_nat NumberOfRotations) @ ext"






section \<open>Resume loader\<close>



fun checkpoint_of :: "'t event \<Rightarrow> (scan_locations \<times> 't conditions) list" where
  "checkpoint_of (PickleDump l c) = [(l, c)]"
| "checkpoint_of _ = []"

definition checkpoint_writes :: "'t event list \<Rightarrow> (scan_locations \<times> 't conditions) list" where
  "checkpoint_writes evs = concat (map checkpoint_of evs)"

definition restarts :: "'t event list \<Rightarrow> nat" where
  "restarts evs = length (filter (\<lambda>e. e = Restart) evs)"

definition visits :: "'t event list \<Rightarrow> nat" where
  "visits evs = length (filter (\<lambda>e. e = Settle) evs)"

fun is_capture :: "'t event \<Rightarrow> bool" where
  "is_capture (Fswebcam res path) = True"
| "is_capture _ = False"

definition captures :: "'t event list \<Rightarrow> nat" where
  "captures evs = length (filter is_capture evs)"


definition label :: "scan_locations \<Rightarrow> string \<Rightarrow> nat \<Rightarrow> string" where
  "label l ext i = name_of (XCoord l ! i) (YCoord l ! i) (ZCoord l ! i) (RCoord l ! i)
                     (card (set (RCoord l))) ext"



section \<open>Properties of the axis driver\<close>

lemma MoveX_position:
  "GlobalX (MoveX direction numsteps delay s) =
     (if direction = XFORWARD then GlobalX s + numsteps else GlobalX s - numsteps)"
  by (simp add: MoveX_def Let_def)

lemma MoveY_position:
  "GlobalY (MoveY direction numsteps delay s) =
     (if direction = YFORWARD then GlobalY s + numsteps else GlobalY s - numsteps)"
  by (simp add: MoveY_def Let_def)

lemma MoveZ_position:
  "GlobalZ (MoveZ direction numsteps delay s) =
     (if direction = ZFORWARD then GlobalZ s + numsteps else GlobalZ s - numsteps)"
  by (simp add: MoveZ_def Let_def)

lemma MoveX_issued:
  "issued s (MoveX direction numsteps delay s) = replicate (nat numsteps) (Pulse AxisX direction delay)"
  by (simp add: MoveX_def Let_def issued_def)

lemma MoveR_position: "GlobalR (MoveR direction numsteps delay s) = GlobalR s"
  by (simp add: MoveR_def)

lemma XGoTo_reaches:
  "XMin \<le> XDest \<Longrightarrow> XDest \<le> XMax \<Longrightarrow> GlobalX (XGoTo XDest XMin s) = XDest"
  by (simp add: XGoTo_def Let_def MoveX_def XFORWARD_def XBACKWARD_def)

lemma XGoTo_idempotent:
  "XMin \<le> XDest \<Longrightarrow> XDest \<le> XMax \<Longrightarrow>
     issued (XGoTo XDest XMin s) (XGoTo XDest XMin (XGoTo XDest XMin s)) = [] \<and>
     GlobalX (XGoTo XDest XMin (XGoTo XDest XMin s)) = GlobalX (XGoTo XDest XMin s)"
  by (simp add: XGoTo_def Let_def MoveX_def XFORWARD_def XBACKWARD_def issued_def)

lemma YGoTo_reaches:
  "YMin \<le> YDest \<Longrightarrow> YDest \<le> YMax \<Longrightarrow> GlobalY (YGoTo YDest YMin s) = YDest"
  by (simp add: YGoTo_def Let_def MoveY_def YFORWARD_def YBACKWARD_def)

lemma YGoTo_idempotent:
  "YMin \<le> YDest \<Longrightarrow> YDest \<le> YMax \<Longrightarrow>
     issued (YGoTo YDest YMin s) (YGoTo YDest YMin (YGoTo YDest YMin s)) = [] \<and>
     GlobalY (YGoTo YDest YMin (YGoTo YDest YMin s)) = GlobalY (YGoTo YDest YMin s)"
  by (simp add: YGoTo_def Let_def MoveY_def YFORWARD_def YBACKWARD_def issued_def)

lemma ZGoTo_reaches:
  "ZMin \<le> ZDest \<Longrightarrow> ZDest \<le> ZMax \<Longrightarrow> GlobalZ (ZGoTo ZDest ZMin s) = ZDest"
  by (simp add: ZGoTo_def Let_def MoveZ_def ZFORWARD_def ZBACKWARD_def)

lemma ZGoTo_idempotent:
  "ZMin \<le> ZDest \<Longrightarrow> ZDest \<le> ZMax \<Longrightarrow>
     issued (ZGoTo ZDest ZMin s) (ZGoTo ZDest ZMin (ZGoTo ZDest ZMin s)) = [] \<and>
     GlobalZ (ZGoTo ZDest ZMin (ZGoTo ZDest ZMin s)) = GlobalZ (ZGoTo ZDest ZMin s)"
  by (simp add: ZGoTo_def Let_def MoveZ_def ZFORWARD_def ZBACKWARD_def issued_def)

text \<open>
  Claim C7 (every axis, R included, has its tracked position changed by the step count).
  \<^verbatim>\<open>MoveX\<close>, \<^verbatim>\<open>MoveY\<close> and \<^verbatim>\<open>MoveZ\<close> do this (lemmas \<open>MoveX_position\<close>,
  \<open>MoveY_position\<close>, \<open>MoveZ_position\<close>). \<^verbatim>\<open>MoveR\<close> does not: five forward steps
  from the initial state send five pulses and leave \<^verbatim>\<open>GlobalR\<close> at 0.
\<close>

theorem MoveR_does_not_track:
  "GlobalR (MoveR RFORWARD 5 FAST (boot :: unit machine)) = 0 \<and>
   issued boot (MoveR RFORWARD 5 FAST (boot :: unit machine)) = replicate 5 (Pulse AxisR RFORWARD FAST)"
  by (simp add: MoveR_def boot_def issued_def)

text \<open>
  Claim C5 (a second \<open>goTo\<close> to the same destination issues no pulse, on every axis).
  It holds for X, Y and Z (lemmas \<open>XGoTo_idempotent\<close>, \<open>YGoTo_idempotent\<close>,
  \<open>ZGoTo_idempotent\<close>). On the rotation axis the second \<^verbatim>\<open>RGoTo(5)\<close> sends the same
  five pulses again, since \<^verbatim>\<open>GlobalR\<close> is still 0 after the first.
\<close>

theorem RGoTo_twice_steps_again:
  "issued (RGoTo 5 0 (boot :: unit machine)) (RGoTo 5 0 (RGoTo 5 0 boot))
     = replicate 5 (Pulse AxisR RFORWARD FAST)"
  by (simp add: RGoTo_def MoveR_def boot_def issued_def Let_def StepsPerRotation_def)

text \<open>
  Claim C6. For each of X, Y and Z, and any lower bound not above the axis maximum: a
  \<open>goTo\<close> to the maximum itself is carried out (the pulses for the distance are issued
  in the right direction, nothing is reported and the position becomes the maximum),
  and a \<open>goTo\<close> to the maximum plus one only reports \<^verbatim>\<open>Destination out of range\<close>: no
  pulse, no change of position. The report printed by the source is what the
  specification calls \<open>OutOfRangeError\<close>.
\<close>

theorem GoTo_boundary:
  assumes "XMin \<le> XMax" and "YMin \<le> YMax" and "ZMin \<le> ZMax"
  shows "(GlobalX (XGoTo XMax XMin s) = XMax
          \<and> issued s (XGoTo XMax XMin s) =
              replicate (nat \<bar>XMax - GlobalX s\<bar>)
                (Pulse AxisX (if GlobalX s < XMax then XFORWARD else XBACKWARD) FASTER)
          \<and> stdout (XGoTo XMax XMin s) = stdout s
          \<and> XGoTo (XMax + 1) XMin s = s\<lparr>stdout := stdout s @ [''Destination out of range'']\<rparr>)
       \<and> (GlobalY (YGoTo YMax YMin s) = YMax
          \<and> issued s (YGoTo YMax YMin s) =
              replicate (nat \<bar>YMax - GlobalY s\<bar>)
                (Pulse AxisY (if GlobalY s < YMax then YFORWARD else YBACKWARD) FASTER)
          \<and> stdout (YGoTo YMax YMin s) = stdout s
          \<and> YGoTo (YMax + 1) YMin s = s\<lparr>stdout := stdout s @ [''Destination out of range'']\<rparr>)
       \<and> (GlobalZ (ZGoTo ZMax ZMin s) = ZMax
          \<and> issued s (ZGoTo ZMax ZMin s) =
              replicate (nat \<bar>ZMax - GlobalZ s\<bar>)
                (Pulse AxisZ (if GlobalZ s < ZMax then ZFORWARD else ZBACKWARD) FASTERER)
          \<and> stdout (ZGoTo ZMax ZMin s) = stdout s
          \<and> ZGoTo (ZMax + 1) ZMin s = s\<lparr>stdout := stdout s @ [''Destination out of range'']\<rparr>)"
proof -
  have x: "GlobalX (XGoTo XMax XMin s) = XMax
          \<and> issued s (XGoTo XMax XMin s) =
              replicate (nat \<bar>XMax - GlobalX s\<bar>)
                (Pulse AxisX (if GlobalX s < XMax then XFORWARD else XBACKWARD) FASTER)
          \<and> stdout (XGoTo XMax XMin s) = stdout s
          \<and> XGoTo (XMax + 1) XMin s = s\<lparr>stdout := stdout s @ [''Destination out of range'']\<rparr>"
    using assms(1) by (simp add: XGoTo_def MoveX_def Let_def issued_def XFORWARD_def XBACKWARD_def)
  have y: "GlobalY (YGoTo YMax YMin s) = YMax
          \<and> issued s (YGoTo YMax YMin s) =
              replicate (nat \<bar>YMax - GlobalY s\<bar>)
                (Pulse AxisY (if GlobalY s < YMax then YFORWARD else YBACKWARD) FASTER)
          \<and> stdout (YGoTo YMax YMin s) = stdout s
          \<and> YGoTo (YMax + 1) YMin s = s\<lparr>stdout := stdout s @ [''Destination out of range'']\<rparr>"
    using assms(2) by (simp add: YGoTo_def MoveY_def Let_def issued_def YFORWARD_def YBACKWARD_def)
  have z: "GlobalZ (ZGoTo ZMax ZMin s) = ZMax
          \<and> issued s (ZGoTo ZMax ZMin s) =
              replicate (nat \<bar>ZMax - GlobalZ s\<bar>)
                (Pulse AxisZ (if GlobalZ s < ZMax then ZFORWARD else ZBACKWARD) FASTERER)
          \<and> stdout (ZGoTo ZMax ZMin s) = stdout s
          \<and> ZGoTo (ZMax + 1) ZMin s = s\<lparr>stdout := stdout s @ [''Destination out of range'']\<rparr>"
    using assms(3) by (simp add: ZGoTo_def MoveZ_def Let_def issued_def ZFORWARD_def ZBACKWARD_def)
  from x y z show ?thesis by blast
qed

text \<open>
  Claim C8 says that a rotation to \<^verbatim>\<open>StepsPerRotation\<close> itself is rejected. It is
  accepted: from the initial state \<^verbatim>\<open>RGoTo(160)\<close> prints nothing and sends 160 pulses.
\<close>

theorem RGoTo_full_turn_accepted:
  "stdout (RGoTo StepsPerRotation 0 (boot :: unit machine)) = [] \<and>
   issued boot (RGoTo StepsPerRotation 0 (boot :: unit machine))
     = replicate 160 (Pulse AxisR RFORWARD FAST)"
  by (simp add: RGoTo_def MoveR_def boot_def issued_def Let_def StepsPerRotation_def)

text \<open>
  Claim C8 as amended. \<^verbatim>\<open>RGoTo\<close> accepts exactly the destinations of the closed
  range from \<open>RMin\<close> to \<^verbatim>\<open>StepsPerRotation\<close>: for these it reports nothing and sends
  the pulses for the distance from \<^verbatim>\<open>GlobalR\<close>; outside it only prints its message.
\<close>

theorem RGoTo_closed_range:
  "(RMin \<le> RDest \<and> RDest \<le> StepsPerRotation \<longrightarrow>
      stdout (RGoTo RDest RMin s) = stdout s \<and>
      issued s (RGoTo RDest RMin s) =
        replicate (nat \<bar>RDest - GlobalR s\<bar>)
          (Pulse AxisR (if GlobalR s < RDest then RFORWARD else RBACKWARD) FAST)) \<and>
   (RDest < RMin \<or> StepsPerRotation < RDest \<longrightarrow>
      RGoTo RDest RMin s = s\<lparr>stdout := stdout s @ [RGoTo_message RMin]\<rparr> \<and>
      issued s (RGoTo RDest RMin s) = [])"
proof (intro conjI impI)
  assume inside: "RMin \<le> RDest \<and> RDest \<le> StepsPerRotation"
  show "stdout (RGoTo RDest RMin s) = stdout s"
    using inside by (simp add: RGoTo_def MoveR_def Let_def)
  show "issued s (RGoTo RDest RMin s) =
        replicate (nat \<bar>RDest - GlobalR s\<bar>)
          (Pulse AxisR (if GlobalR s < RDest then RFORWARD else RBACKWARD) FAST)"
  proof (cases "GlobalR s < RDest")
    case True
    with inside show ?thesis by (simp add: RGoTo_def MoveR_def issued_def Let_def)
  next
    case False
    with inside show ?thesis by (simp add: RGoTo_def MoveR_def issued_def Let_def)
  qed
next
  assume outside: "RDest < RMin \<or> StepsPerRotation < RDest"
  then show "RGoTo RDest RMin s = s\<lparr>stdout := stdout s @ [RGoTo_message RMin]\<rparr>"
    by (auto simp: RGoTo_def)
  then show "issued s (RGoTo RDest RMin s) = []"
    by (simp add: issued_def)
qed

text \<open>
  The boundary theorem at the default lower bound 0, from the position 100 on every axis.
\<close>

theorem GoTo_boundary_witness:
  "GlobalX (XGoTo XMax 0 ((boot :: unit machine)\<lparr>GlobalX := 100\<rparr>)) = 1800
   \<and> length (issued ((boot :: unit machine)\<lparr>GlobalX := 100\<rparr>)
              (XGoTo XMax 0 ((boot :: unit machine)\<lparr>GlobalX := 100\<rparr>))) = 1700
   \<and> stdout (XGoTo (XMax + 1) 0 ((boot :: unit machine)\<lparr>GlobalX := 100\<rparr>))
        = [''Destination out of range'']
   \<and> GlobalX (XGoTo (XMax + 1) 0 ((boot :: unit machine)\<lparr>GlobalX := 100\<rparr>)) = 100"
proof -
  have h: "(0::int) \<le> XMax" "(0::int) \<le> YMax" "(0::int) \<le> ZMax"
    by (simp_all add: XMax_def YMax_def ZMax_def)
  from GoTo_boundary [OF h, of "(boot :: unit machine)\<lparr>GlobalX := 100\<rparr>"]
  show ?thesis by (simp add: XMax_def boot_def)
qed

text \<open>
  The two ends of the range: 160 is accepted from the initial state, 161 is not.
\<close>

theorem RGoTo_closed_range_witness:
  "stdout (RGoTo 160 0 (boot :: unit machine)) = []
   \<and> length (issued (boot :: unit machine) (RGoTo 160 0 boot)) = 160
   \<and> RGoTo 161 0 (boot :: unit machine) = boot\<lparr>stdout := [RGoTo_message 0]\<rparr>"
  using RGoTo_closed_range [of 0 160 "boot :: unit machine"]
    RGoTo_closed_range [of 0 161 "boot :: unit machine"]
  by (simp add: StepsPerRotation_def boot_def)

section \<open>Properties of the scan grid generator\<close>

lemma neg_one_power_int: "((- 1) ^ i = (1::int)) = even i"
  by (cases "even i") simp_all

lemma fold_rows:
  "fold (\<lambda>(i, yi) (xscan, yscan). (xscan @ [f i], yscan @ [g yi])) ps (a, b)
     = (a @ map (\<lambda>p. f (fst p)) ps, b @ map (\<lambda>p. g (snd p)) ps)"
  by (induction ps arbitrary: a b) (auto simp: case_prod_beta)

lemma map_fst_arg: "map (\<lambda>p. f (fst p)) ps = map f (map fst ps)"
  by (simp add: comp_def)

lemma map_snd_arg: "map (\<lambda>p. g (snd p)) ps = map g (map snd ps)"
  by (simp add: comp_def)

lemma raster_rows_eq:
  "raster_rows xgrid ygrid =
     (map (\<lambda>i. if even i then xgrid else rev xgrid) [0..<length ygrid],
      map (\<lambda>yi. replicate (length xgrid) yi) ygrid)"
proof -
  have c: "map (\<lambda>one. one * yi) (ones_like xgrid) = replicate (length xgrid) yi" for yi
    by (simp add: ones_like_def map_replicate_const comp_def)
  have a: "map (\<lambda>p. if even (fst p) then xgrid else rev xgrid) (enumerate 0 ygrid)
            = map (\<lambda>i. if even i then xgrid else rev xgrid) [0..<length ygrid]"
    using map_fst_arg [of "\<lambda>i. if even i then xgrid else rev xgrid" "enumerate 0 ygrid"]
    by (simp only: map_fst_enumerate add_0)
  show ?thesis
    unfolding raster_rows_def neg_one_power_int c fold_rows map_snd_arg map_snd_enumerate a
    by simp
qed

lemma fold_inner3:
  "fold (\<lambda>j (a, b, c). (a @ [f j], b @ [g j], c @ [h])) js (a0, b0, c0)
     = (a0 @ map f js, b0 @ map g js, c0 @ replicate (length js) h)"
  by (induction js arbitrary: a0 b0 c0) (auto simp: replicate_append_same)

lemma fold_outer3:
  "fold (\<lambda>i. fold (\<lambda>j (a, b, c). (a @ [f j], b @ [g j], c @ [h i])) js) is (a0, b0, c0)
     = (a0 @ concat (replicate (length is) (map f js)),
        b0 @ concat (replicate (length is) (map g js)),
        c0 @ concat (map (\<lambda>i. replicate (length js) (h i)) is))"
  by (induction "is" arbitrary: a0 b0 c0) (auto simp: fold_inner3)

lemma add_z_eq:
  "add_z xscan yscan zgrid =
     (concat (replicate (length zgrid) xscan),
      concat (replicate (length zgrid) (map (\<lambda>j. yscan ! j) [0..<length xscan])),
      concat (map (\<lambda>z. replicate (length xscan) z) zgrid))"
proof -
  have "concat (map (\<lambda>i. replicate (length xscan) (zgrid ! i)) [0..<length zgrid])
          = concat (map (\<lambda>z. replicate (length xscan) z) (map (\<lambda>i. zgrid ! i) [0..<length zgrid]))"
    by (simp add: comp_def)
  then show ?thesis
    unfolding add_z_def fold_outer3 by (simp add: map_nth)
qed

lemma fold_inner4:
  "fold (\<lambda>j (a, b, c, d). (a @ [f j], b @ [g j], c @ [k j], d @ [h])) js (a0, b0, c0, d0)
     = (a0 @ map f js, b0 @ map g js, c0 @ map k js, d0 @ replicate (length js) h)"
  by (induction js arbitrary: a0 b0 c0 d0) (auto simp: replicate_append_same)

lemma fold_outer4:
  "fold (\<lambda>i. fold (\<lambda>j (a, b, c, d). (a @ [f j], b @ [g j], c @ [k j], d @ [h i])) js) is
        (a0, b0, c0, d0)
     = (a0 @ concat (replicate (length is) (map f js)),
        b0 @ concat (replicate (length is) (map g js)),
        c0 @ concat (replicate (length is) (map k js)),
        d0 @ concat (map (\<lambda>i. replicate (length js) (h i)) is))"
  by (induction "is" arbitrary: a0 b0 c0 d0) (auto simp: fold_inner4)

lemma add_r_eq:
  "add_r NewXScan NewYScan NewZScan rgrid =
     (concat (replicate (length rgrid) NewXScan),
      concat (replicate (length rgrid) (map (\<lambda>j. NewYScan ! j) [0..<length NewXScan])),
      concat (replicate (length rgrid) (map (\<lambda>j. NewZScan ! j) [0..<length NewXScan])),
      concat (map (\<lambda>r. replicate (length NewXScan) r) rgrid))"
proof -
  have "concat (map (\<lambda>i. replicate (length NewXScan) (rgrid ! i)) [0..<length rgrid])
          = concat (map (\<lambda>r. replicate (length NewXScan) r) (map (\<lambda>i. rgrid ! i) [0..<length rgrid]))"
    by (simp add: comp_def)
  then show ?thesis
    unfolding add_r_def fold_outer4 by (simp add: map_nth)
qed

lemma length_concat_replicate: "length (concat (replicate n xs)) = n * length xs"
  by (induction n) simp_all

lemma length_concat_const:
  "length (concat (map (\<lambda>z. replicate m z) zs)) = length zs * m"
  by (induction zs) simp_all

lemma length_concat_rows:
  "length (concat (map (\<lambda>i. if even i then xs else rev xs) js)) = length js * length xs"
  by (induction js) simp_all

lemma DefineScan_grids:
  assumes "arange XMin (XMax' + 1) XSteps = Inr xgrid"
    and "arange YMin (YMax' + 1) YSteps = Inr ygrid"
    and "arange ZMin (ZMax' + 1) ZSteps = Inr zgrid"
    and "arange RMin (RMax' + 1) RSteps = Inr rgrid"
  shows "DefineScan XMin XMax' YMin YMax' ZMin ZMax' RMin RMax' XSteps YSteps ZSteps RSteps =
    (if ygrid = [] then Inl ValueError
     else Inr \<lparr>XCoord = concat (replicate (length rgrid) (concat (replicate (length zgrid)
                   (concat (map (\<lambda>i. if even i then xgrid else rev xgrid) [0..<length ygrid]))))),
               YCoord = concat (replicate (length rgrid) (concat (replicate (length zgrid)
                   (concat (map (\<lambda>yi. replicate (length xgrid) yi) ygrid))))),
               ZCoord = concat (replicate (length rgrid)
                   (concat (map (\<lambda>z. replicate (length ygrid * length xgrid) z) zgrid))),
               RCoord = concat (map (\<lambda>r. replicate (length zgrid * (length ygrid * length xgrid)) r)
                   rgrid)\<rparr>)"
proof -
  let ?xs = "concat (map (\<lambda>i. if even i then xgrid else rev xgrid) [0..<length ygrid])"
  let ?ys = "concat (map (\<lambda>yi. replicate (length xgrid) yi) ygrid)"
  have lx: "length ?xs = length ygrid * length xgrid"
    using length_concat_rows [of xgrid "[0..<length ygrid]"] by simp
  have ly: "length ?ys = length ygrid * length xgrid"
    by (simp add: length_concat_const)
  have my: "map (\<lambda>j. ?ys ! j) [0..<length ygrid * length xgrid] = ?ys"
    using map_nth [of ?ys] by (simp only: ly)
  let ?nx = "concat (replicate (length zgrid) ?xs)"
  let ?ny = "concat (replicate (length zgrid) ?ys)"
  let ?nz = "concat (map (\<lambda>z. replicate (length ygrid * length xgrid) z) zgrid)"
  have z: "add_z ?xs ?ys zgrid = (?nx, ?ny, ?nz)"
    unfolding add_z_eq lx my ..
  have lnx: "length ?nx = length zgrid * (length ygrid * length xgrid)"
    by (simp only: length_concat_replicate lx)
  have lny: "length ?ny = length zgrid * (length ygrid * length xgrid)"
    by (simp only: length_concat_replicate ly)
  have lnz: "length ?nz = length zgrid * (length ygrid * length xgrid)"
    by (simp only: length_concat_const)
  have mny: "map (\<lambda>j. ?ny ! j) [0..<length zgrid * (length ygrid * length xgrid)] = ?ny"
    using map_nth [of ?ny] by (simp only: lny)
  have mnz: "map (\<lambda>j. ?nz ! j) [0..<length zgrid * (length ygrid * length xgrid)] = ?nz"
    using map_nth [of ?nz] by (simp only: lnz)
  have r: "add_r ?nx ?ny ?nz rgrid =
      (concat (replicate (length rgrid) ?nx), concat (replicate (length rgrid) ?ny),
       concat (replicate (length rgrid) ?nz),
       concat (map (\<lambda>r. replicate (length zgrid * (length ygrid * length xgrid)) r) rgrid))"
    unfolding add_r_eq lnx mny mnz ..
  show ?thesis
    unfolding DefineScan_def assms raster_rows_eq
    by (simp add: concatenate_def z r del: replicate_eq_replicate)
qed














text \<open>
  Claim C4. \<^verbatim>\<open>DefineScan(0, 2, 0, 1, 0, 0, 0, 0, 1, 1, 1, 1)\<close> yields six coordinates whose
  X and Y values are (0,0), (1,0), (2,0), (2,1), (1,1), (0,1), in this order.
\<close>

theorem DefineScan_3_by_2:
  "DefineScan 0 2 0 1 0 0 0 0 1 1 1 1 =
     Inr \<lparr>XCoord = [0, 1, 2, 2, 1, 0], YCoord = [0, 0, 0, 1, 1, 1],
          ZCoord = [0, 0, 0, 0, 0, 0], RCoord = [0, 0, 0, 0, 0, 0]\<rparr>
   \<and> map_sum id (\<lambda>sl. zip (XCoord sl) (YCoord sl)) (DefineScan 0 2 0 1 0 0 0 0 1 1 1 1) =
     Inr [(0, 0), (1, 0), (2, 0), (2, 1), (1, 1), (0, 1)]
   \<and> map_sum id (\<lambda>sl. length (XCoord sl)) (DefineScan 0 2 0 1 0 0 0 0 1 1 1 1) = Inr 6"
proof -
  have ax: "arange 0 (2 + 1) 1 = Inr [0, 1, 2]"
    by (simp add: arange_def upt_rec)
  have ay: "arange 0 (1 + 1) 1 = Inr [0, 1]"
    by (simp add: arange_def upt_rec)
  have az: "arange 0 (0 + 1) 1 = Inr [0]"
    by (simp add: arange_def)
  have "DefineScan 0 2 0 1 0 0 0 0 1 1 1 1 =
     Inr \<lparr>XCoord = [0, 1, 2, 2, 1, 0], YCoord = [0, 0, 0, 1, 1, 1],
          ZCoord = [0, 0, 0, 0, 0, 0], RCoord = [0, 0, 0, 0, 0, 0]\<rparr>"
    unfolding DefineScan_grids [OF ax ay az az]
    by (simp add: upt_rec numeral_eq_Suc)
  then show ?thesis by simp
qed

text \<open>
  Claim C10. Whenever \<^verbatim>\<open>DefineScan\<close> returns, its four lists have the same length, so
  that every index below the length of the X list is in range for all of them.
\<close>

theorem DefineScan_equal_lengths:
  assumes "DefineScan XMin XMax' YMin YMax' ZMin ZMax' RMin RMax' XSteps YSteps ZSteps RSteps
             = Inr sl"
  shows "length (YCoord sl) = length (XCoord sl)
       \<and> length (ZCoord sl) = length (XCoord sl)
       \<and> length (RCoord sl) = length (XCoord sl)
       \<and> (\<forall>i < length (XCoord sl).
            index (XCoord sl) i = Inr (XCoord sl ! i) \<and> index (YCoord sl) i = Inr (YCoord sl ! i)
          \<and> index (ZCoord sl) i = Inr (ZCoord sl ! i) \<and> index (RCoord sl) i = Inr (RCoord sl ! i))"
proof -
  obtain xgrid where ax: "arange XMin (XMax' + 1) XSteps = Inr xgrid"
    using assms by (cases "arange XMin (XMax' + 1) XSteps") (simp_all add: DefineScan_def)
  obtain ygrid where ay: "arange YMin (YMax' + 1) YSteps = Inr ygrid"
    using assms ax by (cases "arange YMin (YMax' + 1) YSteps") (simp_all add: DefineScan_def)
  obtain zgrid where az: "arange ZMin (ZMax' + 1) ZSteps = Inr zgrid"
    using assms ax ay by (cases "arange ZMin (ZMax' + 1) ZSteps") (simp_all add: DefineScan_def)
  obtain rgrid where ar: "arange RMin (RMax' + 1) RSteps = Inr rgrid"
    using assms ax ay az by (cases "arange RMin (RMax' + 1) RSteps") (simp_all add: DefineScan_def)
  have ne: "ygrid \<noteq> []"
    using assms unfolding DefineScan_grids [OF ax ay az ar] by (auto split: if_splits)
  have sl: "sl = \<lparr>XCoord = concat (replicate (length rgrid) (concat (replicate (length zgrid)
                   (concat (map (\<lambda>i. if even i then xgrid else rev xgrid) [0..<length ygrid]))))),
               YCoord = concat (replicate (length rgrid) (concat (replicate (length zgrid)
                   (concat (map (\<lambda>yi. replicate (length xgrid) yi) ygrid))))),
               ZCoord = concat (replicate (length rgrid)
                   (concat (map (\<lambda>z. replicate (length ygrid * length xgrid) z) zgrid))),
               RCoord = concat (map (\<lambda>r. replicate (length zgrid * (length ygrid * length xgrid)) r)
                   rgrid)\<rparr>"
    using assms ne unfolding DefineScan_grids [OF ax ay az ar] by simp
  have lx: "length (XCoord sl) = length rgrid * (length zgrid * (length ygrid * length xgrid))"
    unfolding sl using length_concat_rows [of xgrid "[0..<length ygrid]"]
    by (simp add: length_concat_replicate)
  have ly: "length (YCoord sl) = length rgrid * (length zgrid * (length ygrid * length xgrid))"
    unfolding sl by (simp add: length_concat_replicate length_concat_const)
  have lz: "length (ZCoord sl) = length rgrid * (length zgrid * (length ygrid * length xgrid))"
    unfolding sl by (simp add: length_concat_replicate length_concat_const)
  have lr: "length (RCoord sl) = length rgrid * (length zgrid * (length ygrid * length xgrid))"
    unfolding sl by (simp add: length_concat_const)
  show ?thesis
    by (simp add: index_def lx ly lz lr)
qed

text \<open>
  The theorem at a grid of 3 by 3 points.
\<close>

theorem DefineScan_equal_lengths_witness:
  "DefineScan 0 300 1000 1200 0 0 0 0 150 100 1 1 =
     Inr \<lparr>XCoord = [0, 150, 300, 300, 150, 0, 0, 150, 300],
          YCoord = [1000, 1000, 1000, 1100, 1100, 1100, 1200, 1200, 1200],
          ZCoord = [0, 0, 0, 0, 0, 0, 0, 0, 0], RCoord = [0, 0, 0, 0, 0, 0, 0, 0, 0]\<rparr>
   \<and> index [1000, 1000, 1000, 1100, 1100, 1100, 1200, 1200, 1200 :: int] 8 = Inr 1200"
proof -
  have ax: "arange 0 (300 + 1) 150 = Inr [0, 150, 300]"
    by (simp add: arange_def upt_rec)
  have ay: "arange 1000 (1200 + 1) 100 = Inr [1000, 1100, 1200]"
    by (simp add: arange_def upt_rec)
  have az: "arange 0 (0 + 1) 1 = Inr [0]"
    by (simp add: arange_def)
  have d: "DefineScan 0 300 1000 1200 0 0 0 0 150 100 1 1 =
     Inr \<lparr>XCoord = [0, 150, 300, 300, 150, 0, 0, 150, 300],
          YCoord = [1000, 1000, 1000, 1100, 1100, 1100, 1200, 1200, 1200],
          ZCoord = [0, 0, 0, 0, 0, 0, 0, 0, 0], RCoord = [0, 0, 0, 0, 0, 0, 0, 0, 0]\<rparr>"
    unfolding DefineScan_grids [OF ax ay az az]
    by (simp add: upt_rec numeral_eq_Suc)
  from DefineScan_equal_lengths [OF d] show ?thesis
    using d by simp
qed

section \<open>Properties of the homing controller\<close>



lemma CheckPress_pressed:
  "\<not> gpio PIN (reads s) \<Longrightarrow> \<not> gpio PIN (Suc (reads s)) \<Longrightarrow>
     CheckPress gpio PIN s = (True, s\<lparr>reads := Suc (Suc (reads s))\<rparr>)"
  by (simp add: CheckPress_def Let_def)


lemma coarse_steps_append [simp]:
  "coarse_steps a (ps @ qs) = coarse_steps a ps + coarse_steps a qs"
  by (simp add: coarse_steps_def)













section \<open>Properties of the scan execution engine\<close>

lemma GoTo_events [simp]:
  "events (XGoTo d m s) = events s"
  "events (YGoTo d m s) = events s"
  "events (ZGoTo d m s) = events s"
  "events (RGoTo d m s) = events s"
  by (simp_all add: XGoTo_def YGoTo_def ZGoTo_def RGoTo_def MoveX_def MoveY_def MoveZ_def
      MoveR_def Let_def)

lemma counts_append [simp]:
  "visits (es @ fs) = visits es + visits fs"
  "restarts (es @ fs) = restarts es + restarts fs"
  "captures (es @ fs) = captures es + captures fs"
  "checkpoint_writes (es @ fs) = checkpoint_writes es @ checkpoint_writes fs"
  by (simp_all add: visits_def restarts_def captures_def checkpoint_writes_def)

lemma counts_Nil [simp]:
  "visits [] = 0" "restarts [] = 0" "captures [] = 0" "checkpoint_writes [] = []"
  by (simp_all add: visits_def restarts_def captures_def checkpoint_writes_def)

lemma counts_Cons [simp]:
  "visits (e # es) = (if e = Settle then 1 else 0) + visits es"
  "restarts (e # es) = (if e = Restart then 1 else 0) + restarts es"
  "captures (e # es) = (if is_capture e then 1 else 0) + captures es"
  "checkpoint_writes (e # es) = checkpoint_of e @ checkpoint_writes es"
  by (simp_all add: visits_def restarts_def captures_def checkpoint_writes_def)














lemma Move_events [simp]:
  "events (MoveX d k v s) = events s"
  "events (MoveY d k v s) = events s"
  "events (MoveZ d k v s) = events s"
  by (simp_all add: MoveX_def MoveY_def MoveZ_def Let_def)












lemma label_example:
  "label \<lparr>XCoord = [0, 150], YCoord = [0, 0], ZCoord = [0, 0], RCoord = [0, 0]\<rparr> ''.jpg'' 1
     = ''X0150Y0000Z0000R000of001.jpg''"
  by code_simp





end
